theory Spec2Isabelle
  imports Complex_Main
begin

section \<open>Floating-point values\<close>

text \<open>
  Every number of the program is a Python float or an element of a numpy float64 array.
  The model keeps the special values that the operations of the program can produce
  (\<open>nan\<close> from \<open>np.sqrt\<close> of a negative number and from \<open>0/0\<close>, the infinities from a
  division by zero) and computes on finite values with exact real arithmetic: rounding,
  overflow to infinity and the sign of zero are not modelled (a zero is \<open>+0\<close>).
\<close>

datatype npfloat = Fin real | PInf | NInf | NaN

fun inf_of_sign :: "real \<Rightarrow> npfloat" where
  "inf_of_sign s = (if s = 0 then NaN else if 0 < s then PInf else NInf)"

fun sign_of :: "npfloat \<Rightarrow> real" where
  "sign_of (Fin x) = sgn x"
| "sign_of PInf = 1"
| "sign_of NInf = - 1"
| "sign_of NaN = 0"

fun fneg :: "npfloat \<Rightarrow> npfloat" where
  "fneg (Fin x) = Fin (- x)"
| "fneg PInf = NInf"
| "fneg NInf = PInf"
| "fneg NaN = NaN"

fun fadd :: "npfloat \<Rightarrow> npfloat \<Rightarrow> npfloat" where
  "fadd (Fin x) (Fin y) = Fin (x + y)"
| "fadd NaN _ = NaN"
| "fadd _ NaN = NaN"
| "fadd PInf NInf = NaN"
| "fadd NInf PInf = NaN"
| "fadd PInf _ = PInf"
| "fadd _ PInf = PInf"
| "fadd NInf _ = NInf"
| "fadd _ NInf = NInf"

fun fmul :: "npfloat \<Rightarrow> npfloat \<Rightarrow> npfloat" where
  "fmul (Fin x) (Fin y) = Fin (x * y)"
| "fmul NaN _ = NaN"
| "fmul _ NaN = NaN"
| "fmul x y = inf_of_sign (sign_of x * sign_of y)"

text \<open>
  numpy's division: a zero divisor is no error, the quotient is an infinity of the sign
  of the dividend, or \<open>nan\<close> for \<open>0/0\<close> (with a RuntimeWarning, which is no exception).
\<close>

fun fdiv :: "npfloat \<Rightarrow> npfloat \<Rightarrow> npfloat" where
  "fdiv (Fin x) (Fin y) = (if y = 0 then inf_of_sign x else Fin (x / y))"
| "fdiv NaN _ = NaN"
| "fdiv _ NaN = NaN"
| "fdiv (Fin x) _ = Fin 0"
| "fdiv x (Fin y) = inf_of_sign (sign_of x * (if 0 \<le> y then 1 else - 1))"
| "fdiv _ _ = NaN"

instantiation npfloat :: "{plus, minus, uminus, times, inverse}"
begin

definition plus_npfloat :: "npfloat \<Rightarrow> npfloat \<Rightarrow> npfloat" where
  "plus_npfloat x y = fadd x y"

definition uminus_npfloat :: "npfloat \<Rightarrow> npfloat" where
  "uminus_npfloat x = fneg x"

definition minus_npfloat :: "npfloat \<Rightarrow> npfloat \<Rightarrow> npfloat" where
  "minus_npfloat x y = fadd x (fneg y)"

definition times_npfloat :: "npfloat \<Rightarrow> npfloat \<Rightarrow> npfloat" where
  "times_npfloat x y = fmul x y"

definition divide_npfloat :: "npfloat \<Rightarrow> npfloat \<Rightarrow> npfloat" where
  "divide_npfloat x y = fdiv x y"

definition inverse_npfloat :: "npfloat \<Rightarrow> npfloat" where
  "inverse_npfloat x = fdiv (Fin 1) x"

instance ..

end

text \<open>\<open>np.sqrt\<close>: \<open>nan\<close> below zero (a RuntimeWarning, no exception).\<close>

fun np_sqrt :: "npfloat \<Rightarrow> npfloat" where
  "np_sqrt (Fin x) = (if x < 0 then NaN else Fin (sqrt x))"
| "np_sqrt PInf = PInf"
| "np_sqrt NInf = NaN"
| "np_sqrt NaN = NaN"

section \<open>Exceptions of Python and numpy\<close>

datatype error = ZeroDivisionError | ValueError | OverflowError | IndexError

text \<open>Python's \<open>x / y\<close> on floats raises on a zero divisor, whatever the dividend.\<close>

definition py_truediv :: "npfloat \<Rightarrow> npfloat \<Rightarrow> error + npfloat" where
  "py_truediv x y = (if y = Fin 0 then Inl ZeroDivisionError else Inr (x / y))"

text \<open>Python's \<open>int(x)\<close> truncates toward zero and raises on \<open>nan\<close> and the infinities.\<close>

fun py_int :: "npfloat \<Rightarrow> error + int" where
  "py_int (Fin x) = Inr (if 0 \<le> x then \<lfloor>x\<rfloor> else \<lceil>x\<rceil>)"
| "py_int NaN = Inl ValueError"
| "py_int PInf = Inl OverflowError"
| "py_int NInf = Inl OverflowError"

text \<open>\<open>np.zeros((rows, cols))\<close>: a negative dimension raises ValueError.\<close>

definition np_zeros :: "int \<Rightarrow> int \<Rightarrow> error + npfloat list list" where
  "np_zeros rows cols =
     (if rows < 0 \<or> cols < 0 then Inl ValueError
      else Inr (replicate (nat rows) (replicate (nat cols) (Fin 0))))"

text \<open>
  \<open>paths[0] = v\<close>: the scalar is broadcast over row 0; an array with no row raises
  IndexError.
\<close>

fun set_row0 :: "npfloat list list \<Rightarrow> npfloat \<Rightarrow> error + npfloat list list" where
  "set_row0 [] v = Inl IndexError"
| "set_row0 (row # rows) v = Inr (replicate (length row) v # rows)"

section \<open>The process-wide random generator\<close>

text \<open>
  \<open>np.random.normal\<close> belongs to numpy, not to this repository: the generator is a
  parameter \<open>gen\<close>, which turns a generator state into one standard-normal draw and the
  next state. \<open>np.random.normal(size=(rows, cols))\<close> makes \<open>rows * cols\<close> draws in a
  row, filling the array row by row, and leaves the generator advanced; a negative
  dimension raises ValueError.
\<close>

fun draw_row :: "('g \<Rightarrow> real \<times> 'g) \<Rightarrow> 'g \<Rightarrow> nat \<Rightarrow> npfloat list \<times> 'g" where
  "draw_row gen g 0 = ([], g)"
| "draw_row gen g (Suc k) =
     (case gen g of (z, g1) \<Rightarrow>
        (case draw_row gen g1 k of (zs, g2) \<Rightarrow> (Fin z # zs, g2)))"

fun draw_rows :: "('g \<Rightarrow> real \<times> 'g) \<Rightarrow> 'g \<Rightarrow> nat \<Rightarrow> nat \<Rightarrow> npfloat list list \<times> 'g" where
  "draw_rows gen g 0 cols = ([], g)"
| "draw_rows gen g (Suc k) cols =
     (case draw_row gen g cols of (row, g1) \<Rightarrow>
        (case draw_rows gen g1 k cols of (rows, g2) \<Rightarrow> (row # rows, g2)))"

definition np_random_normal ::
  "('g \<Rightarrow> real \<times> 'g) \<Rightarrow> 'g \<Rightarrow> int \<Rightarrow> int \<Rightarrow> error + (npfloat list list \<times> 'g)" where
  "np_random_normal gen g rows cols =
     (if rows < 0 \<or> cols < 0 then Inl ValueError
      else Inr (draw_rows gen g (nat rows) (nat cols)))"




section \<open>calibration.py\<close>

text \<open>
  The residual functions. \<open>a, b, sigma = params\<close> raises ValueError unless \<open>params\<close>
  has exactly three entries (two for Ho-Lee). The slices \<open>r[:-1]\<close> and \<open>r[1:]\<close> of a numpy
  array are \<open>butlast\<close> and \<open>tl\<close>, both empty on an empty array; the arithmetic is numpy's,
  element by element, with the scalars broadcast.
\<close>

definition epsilon :: npfloat where
  "epsilon = Fin (1 / 10 ^ 6)"

definition vasicek_calibration ::
  "npfloat list \<Rightarrow> npfloat list \<Rightarrow> npfloat \<Rightarrow> error + npfloat list" where
  "vasicek_calibration params r dt =
     (case params of
        [a, b, sigma] \<Rightarrow>
          (let r_lag = butlast r; r_next = tl r;
               expected_change = map (\<lambda>x. a * (b - x) * dt) r_lag;
               residuals = map2 (\<lambda>d e. (d - e) / (sigma + epsilon))
                             (map2 (-) r_next r_lag) expected_change
           in Inr residuals)
      | _ \<Rightarrow> Inl ValueError)"

definition holee_calibration ::
  "npfloat list \<Rightarrow> npfloat list \<Rightarrow> npfloat \<Rightarrow> error + npfloat list" where
  "holee_calibration params r dt =
     (case params of
        [theta, sigma] \<Rightarrow>
          (let r_lag = butlast r; r_next = tl r;
               expected_change = theta * dt;
               residuals = map (\<lambda>d. (d - expected_change) / (sigma + epsilon))
                             (map2 (-) r_next r_lag)
           in Inr residuals)
      | _ \<Rightarrow> Inl ValueError)"





section \<open>models.py\<close>

record VasicekModel =
  a :: npfloat
  b :: npfloat
  sigma :: npfloat
  r0 :: npfloat
  scheme :: string

text \<open>\<open>VasicekModel.__init__\<close>; \<open>None\<close> is the omitted argument \<open>scheme\<close>.\<close>

definition VasicekModel_init ::
  "npfloat \<Rightarrow> npfloat \<Rightarrow> npfloat \<Rightarrow> npfloat \<Rightarrow> string option \<Rightarrow> VasicekModel" where
  "VasicekModel_init a' b' sigma' r0' scheme' =
     \<lparr>a = a', b = b', sigma = sigma', r0 = r0',
      scheme = (case scheme' of None \<Rightarrow> ''euler'' | Some s \<Rightarrow> s)\<rparr>"

text \<open>
  The body of the loop of \<open>VasicekModel.simulate\<close> at step \<open>t\<close>. The scalars are broadcast
  over the row; the three rows that are added have the same length. The loop reads row
  \<open>t\<close> of \<open>paths\<close> and of \<open>dW\<close> and writes row \<open>t + 1\<close> of \<open>paths\<close>, all within the arrays'
  bounds for \<open>t < n_steps\<close>.
\<close>

definition vasicek_step ::
  "VasicekModel \<Rightarrow> npfloat \<Rightarrow> npfloat list list \<Rightarrow> npfloat list list \<Rightarrow> nat \<Rightarrow> npfloat list list" where
  "vasicek_step m dt dW paths t =
     (let drift = map (\<lambda>p. a m * (b m - p) * dt) (paths ! t);
          diffusion = map (\<lambda>w. sigma m * w) (dW ! t)
      in paths[t + 1 := map2 (+) (map2 (+) (paths ! t) drift) diffusion])"

definition vasicek_simulate ::
  "('g \<Rightarrow> real \<times> 'g) \<Rightarrow> VasicekModel \<Rightarrow> npfloat \<Rightarrow> npfloat \<Rightarrow> int \<Rightarrow> 'g
     \<Rightarrow> error + (npfloat list list \<times> 'g)" where
  "vasicek_simulate gen m T dt n_paths g =
     (case py_truediv T dt of Inl e \<Rightarrow> Inl e | Inr q \<Rightarrow>
      case py_int q of Inl e \<Rightarrow> Inl e | Inr n_steps \<Rightarrow>
      case np_zeros (n_steps + 1) n_paths of Inl e \<Rightarrow> Inl e | Inr paths0 \<Rightarrow>
      case set_row0 paths0 (r0 m) of Inl e \<Rightarrow> Inl e | Inr paths1 \<Rightarrow>
      case np_random_normal gen g n_steps n_paths of Inl e \<Rightarrow> Inl e | Inr (Z, g') \<Rightarrow>
        (let dW = map (map (\<lambda>z. np_sqrt dt * z)) Z
         in Inr (foldl (vasicek_step m dt dW) paths1 [0..<nat n_steps], g')))"

text \<open>
  The fields \<open>sigma\<close>, \<open>r0\<close> and \<open>scheme\<close> of \<open>HoLeeModel\<close> carry the prefix \<open>hl_\<close>,
  since the names belong to the fields of \<open>VasicekModel\<close> already.
\<close>

record HoLeeModel =
  theta :: npfloat
  hl_sigma :: npfloat
  hl_r0 :: npfloat
  hl_scheme :: string

definition HoLeeModel_init ::
  "npfloat \<Rightarrow> npfloat \<Rightarrow> npfloat \<Rightarrow> string option \<Rightarrow> HoLeeModel" where
  "HoLeeModel_init theta' sigma' r0' scheme' =
     \<lparr>theta = theta', hl_sigma = sigma', hl_r0 = r0',
      hl_scheme = (case scheme' of None \<Rightarrow> ''euler'' | Some s \<Rightarrow> s)\<rparr>"

text \<open>
  The body of the loop of \<open>HoLeeModel.simulate\<close>: the drift is one scalar, broadcast
  over the row.
\<close>

definition holee_step ::
  "HoLeeModel \<Rightarrow> npfloat \<Rightarrow> npfloat list list \<Rightarrow> npfloat list list \<Rightarrow> nat \<Rightarrow> npfloat list list" where
  "holee_step m dt dW paths t =
     (let drift = theta m * dt;
          diffusion = map (\<lambda>w. hl_sigma m * w) (dW ! t)
      in paths[t + 1 := map2 (+) (map (\<lambda>p. p + drift) (paths ! t)) diffusion])"

definition holee_simulate ::
  "('g \<Rightarrow> real \<times> 'g) \<Rightarrow> HoLeeModel \<Rightarrow> npfloat \<Rightarrow> npfloat \<Rightarrow> int \<Rightarrow> 'g
     \<Rightarrow> error + (npfloat list list \<times> 'g)" where
  "holee_simulate gen m T dt n_paths g =
     (case py_truediv T dt of Inl e \<Rightarrow> Inl e | Inr q \<Rightarrow>
      case py_int q of Inl e \<Rightarrow> Inl e | Inr n_steps \<Rightarrow>
      case np_zeros (n_steps + 1) n_paths of Inl e \<Rightarrow> Inl e | Inr paths0 \<Rightarrow>
      case set_row0 paths0 (hl_r0 m) of Inl e \<Rightarrow> Inl e | Inr paths1 \<Rightarrow>
      case np_random_normal gen g n_steps n_paths of Inl e \<Rightarrow> Inl e | Inr (Z, g') \<Rightarrow>
        (let dW = map (map (\<lambda>z. np_sqrt dt * z)) Z
         in Inr (foldl (holee_step m dt dW) paths1 [0..<nat n_steps], g')))"

section \<open>A generator for the worked examples\<close>

text \<open>
  A stand-in for numpy's generator in the examples below: the state is a counter, and
  the draws are 0, 1, 2, ...
\<close>

definition counter_gen :: "nat \<Rightarrow> real \<times> nat" where
  "counter_gen g = (real g, Suc g)"


section \<open>The random array and the stepping loop\<close>






lemma py_steps_Fin:
  assumes "d \<noteq> 0"
  shows "py_truediv (Fin t) (Fin d) = Inr (Fin (t / d))"
  using assms by (simp add: py_truediv_def divide_npfloat_def)

lemma vasicek_simulate_Fin:
  assumes "d \<noteq> 0" and "0 \<le> t / d" and "0 \<le> n_paths"
  shows "vasicek_simulate gen m (Fin t) (Fin d) n_paths g =
     Inr (foldl (vasicek_step m (Fin d)
                   (map (map (\<lambda>z. np_sqrt (Fin d) * z))
                      (fst (draw_rows gen g (nat \<lfloor>t / d\<rfloor>) (nat n_paths)))))
            (replicate (nat n_paths) (r0 m) #
               replicate (nat \<lfloor>t / d\<rfloor>) (replicate (nat n_paths) (Fin 0)))
            [0..<nat \<lfloor>t / d\<rfloor>],
          snd (draw_rows gen g (nat \<lfloor>t / d\<rfloor>) (nat n_paths)))"
proof -
  have q: "0 \<le> \<lfloor>t / d\<rfloor>" using assms(2) by simp
  then have n: "nat (\<lfloor>t / d\<rfloor> + 1) = Suc (nat \<lfloor>t / d\<rfloor>)" by (simp add: nat_add_distrib)
  have z: "\<not> \<lfloor>t / d\<rfloor> + 1 < 0" "\<not> \<lfloor>t / d\<rfloor> < 0" using q by linarith+
  show ?thesis
    using assms
    by (simp add: z vasicek_simulate_def py_steps_Fin np_zeros_def n np_random_normal_def
        split: prod.splits)
qed

lemma holee_simulate_Fin:
  assumes "d \<noteq> 0" and "0 \<le> t / d" and "0 \<le> n_paths"
  shows "holee_simulate gen m (Fin t) (Fin d) n_paths g =
     Inr (foldl (holee_step m (Fin d)
                   (map (map (\<lambda>z. np_sqrt (Fin d) * z))
                      (fst (draw_rows gen g (nat \<lfloor>t / d\<rfloor>) (nat n_paths)))))
            (replicate (nat n_paths) (hl_r0 m) #
               replicate (nat \<lfloor>t / d\<rfloor>) (replicate (nat n_paths) (Fin 0)))
            [0..<nat \<lfloor>t / d\<rfloor>],
          snd (draw_rows gen g (nat \<lfloor>t / d\<rfloor>) (nat n_paths)))"
proof -
  have q: "0 \<le> \<lfloor>t / d\<rfloor>" using assms(2) by simp
  then have n: "nat (\<lfloor>t / d\<rfloor> + 1) = Suc (nat \<lfloor>t / d\<rfloor>)" by (simp add: nat_add_distrib)
  have z: "\<not> \<lfloor>t / d\<rfloor> + 1 < 0" "\<not> \<lfloor>t / d\<rfloor> < 0" using q by linarith+
  show ?thesis
    using assms
    by (simp add: z holee_simulate_def py_steps_Fin np_zeros_def n np_random_normal_def
        split: prod.splits)
qed

lemma vasicek_step_upd:
  "vasicek_step m dt dW p t =
     p[Suc t := map2 (+) (map2 (+) (p ! t) (map (\<lambda>x. a m * (b m - x) * dt) (p ! t)))
                  (map (\<lambda>w. sigma m * w) (dW ! t))]"
  by (simp add: vasicek_step_def)

lemma holee_step_upd:
  "holee_step m dt dW p t =
     p[Suc t := map2 (+) (map (\<lambda>x. x + theta m * dt) (p ! t))
                  (map (\<lambda>w. hl_sigma m * w) (dW ! t))]"
  by (simp add: holee_step_def)







lemma vasicek_loop_row0: "foldl (vasicek_step m dt dW) p [0..<n] ! 0 = p ! 0"
  by (induction n) (simp_all add: vasicek_step_upd)

lemma holee_loop_row0: "foldl (holee_step m dt dW) p [0..<n] ! 0 = p ! 0"
  by (induction n) (simp_all add: holee_step_upd)















section \<open>The Euler-Maruyama recurrence\<close>





section \<open>Shape of the simulated matrix\<close>



section \<open>Row 0\<close>

text \<open>
  C4: for all positive \<open>T\<close>, \<open>dt\<close> and \<open>n_paths\<close>, row 0 of the matrix that \<open>simulate\<close>
  returns holds the model's \<open>r0\<close> in each of its \<open>n_paths\<close> columns: the stored value
  itself, to which no arithmetic has been applied.
\<close>

theorem simulate_row0:
  assumes "0 < T" and "0 < dt" and "0 < n_paths"
  shows "(\<exists>paths g'. vasicek_simulate gen m (Fin T) (Fin dt) n_paths g = Inr (paths, g') \<and>
            paths ! 0 = replicate (nat n_paths) (r0 m)) \<and>
         (\<exists>paths g'. holee_simulate gen hm (Fin T) (Fin dt) n_paths g = Inr (paths, g') \<and>
            paths ! 0 = replicate (nat n_paths) (hl_r0 hm))"
proof -
  have pre: "dt \<noteq> 0" "0 \<le> T / dt" "0 \<le> n_paths" using assms by simp_all
  show ?thesis
    by (simp add: vasicek_simulate_Fin[OF pre] holee_simulate_Fin[OF pre]
        vasicek_loop_row0 holee_loop_row0)
qed

theorem simulate_row0_witness:
  "(0::real) < 2 \<and> (0::real) < 1 \<and> (0::int) < 3 \<and>
   (\<exists>paths g'. vasicek_simulate counter_gen
        \<lparr>a = Fin 1, b = Fin 1, sigma = Fin 1, r0 = Fin 3, scheme = ''euler''\<rparr>
        (Fin 2) (Fin 1) 3 0 = Inr (paths, g') \<and> paths ! 0 = [Fin 3, Fin 3, Fin 3]) \<and>
   (\<exists>paths g'. holee_simulate counter_gen
        \<lparr>theta = Fin 1, hl_sigma = Fin 1, hl_r0 = Fin 3, hl_scheme = ''euler''\<rparr>
        (Fin 2) (Fin 1) 3 0 = Inr (paths, g') \<and> paths ! 0 = [Fin 3, Fin 3, Fin 3])"
  using simulate_row0 [of 2 1 3 counter_gen
      "\<lparr>a = Fin 1, b = Fin 1, sigma = Fin 1, r0 = Fin 3, scheme = ''euler''\<rparr>" 0
      "\<lparr>theta = Fin 1, hl_sigma = Fin 1, hl_r0 = Fin 3, hl_scheme = ''euler''\<rparr>"]
  by (simp add: numeral_3_eq_3)

section \<open>The residual functions\<close>

lemma vasicek_calibration_unfold:
  "vasicek_calibration [pa, pb, ps] r dt =
     Inr (map2 (\<lambda>d e. (d - e) / (ps + epsilon))
            (map2 (-) (tl r) (butlast r)) (map (\<lambda>x. pa * (pb - x) * dt) (butlast r)))"
  by (simp add: vasicek_calibration_def Let_def)

lemma holee_calibration_unfold:
  "holee_calibration [pt, ps] r dt =
     Inr (map (\<lambda>d. (d - pt * dt) / (ps + epsilon)) (map2 (-) (tl r) (butlast r)))"
  by (simp add: holee_calibration_def Let_def)

lemma transitions_nth:
  assumes "i < length r - 1"
  shows "tl r ! i = r ! (i + 1)" and "butlast r ! i = r ! i"
  using assms by (simp_all add: nth_tl nth_butlast)

lemma denominator_zero_iff: "s + epsilon = Fin 0 \<longleftrightarrow> s = Fin (- (1 / 10 ^ 6))"
  by (cases s) (auto simp: plus_npfloat_def epsilon_def)

text \<open>
  C2, as the claim states it, fails on the empty series: the slices of an empty array
  are empty, so the residual vector has no entry, while \<open>len(series) - 1\<close> is \<open>-1\<close>.
\<close>

theorem residual_length_counterexample:
  "vasicek_calibration [Fin 1, Fin 1, Fin 1] [] (Fin 1) = Inr [] \<and>
   int (length (projr (vasicek_calibration [Fin 1, Fin 1, Fin 1] [] (Fin 1))))
     \<noteq> int (length ([] :: npfloat list)) - 1"
  by (simp add: vasicek_calibration_def Let_def)

text \<open>
  C2, amended: for every parameter vector of the model (three entries for Vasicek, two
  for Ho-Lee), every series and every \<open>dt\<close>, the residual function returns one entry for
  each pair of adjacent observations, \<open>len(series) - 1\<close> entries for a series that is not
  empty and none for the empty one, and entry \<open>i\<close> is
  \<open>(r[i+1] - r[i] - expected_change_i) / (sigma + 1e-6)\<close> with \<open>expected_change_i\<close>
  \<open>a*(b - r[i])*dt\<close> for Vasicek and \<open>theta*dt\<close> for Ho-Lee.
\<close>

theorem residuals_per_transition:
  "(\<exists>res. vasicek_calibration [pa, pb, ps] r dt = Inr res \<and>
      int (length res) = (if r = [] then 0 else int (length r) - 1) \<and>
      (\<forall>i < length res.
         res ! i = (r ! (i + 1) - r ! i - pa * (pb - r ! i) * dt) / (ps + Fin (1 / 10 ^ 6)))) \<and>
   (\<exists>res. holee_calibration [pt, ps] r dt = Inr res \<and>
      int (length res) = (if r = [] then 0 else int (length r) - 1) \<and>
      (\<forall>i < length res.
         res ! i = (r ! (i + 1) - r ! i - pt * dt) / (ps + Fin (1 / 10 ^ 6))))"
proof -
  have len: "int (length r - 1) = (if r = [] then 0 else int (length r) - 1)"
    by (cases r) simp_all
  have V: "\<exists>res. vasicek_calibration [pa, pb, ps] r dt = Inr res \<and>
      int (length res) = (if r = [] then 0 else int (length r) - 1) \<and>
      (\<forall>i < length res.
         res ! i = (r ! (i + 1) - r ! i - pa * (pb - r ! i) * dt) / (ps + Fin (1 / 10 ^ 6)))"
    unfolding vasicek_calibration_unfold using len
    by (simp add: transitions_nth epsilon_def)
  have H: "\<exists>res. holee_calibration [pt, ps] r dt = Inr res \<and>
      int (length res) = (if r = [] then 0 else int (length r) - 1) \<and>
      (\<forall>i < length res.
         res ! i = (r ! (i + 1) - r ! i - pt * dt) / (ps + Fin (1 / 10 ^ 6)))"
    unfolding holee_calibration_unfold using len
    by (simp add: transitions_nth epsilon_def)
  from V H show ?thesis by blast
qed

theorem residuals_per_transition_witness:
  "vasicek_calibration [Fin 2, Fin 1, Fin 0] [Fin 1, Fin 3] (Fin 1) = Inr [Fin 2000000] \<and>
   holee_calibration [Fin 1, Fin 0] [Fin 1, Fin 3] (Fin 1) = Inr [Fin 1000000]"
  using residuals_per_transition [of "Fin 2" "Fin 1" "Fin 0" "[Fin 1, Fin 3]" "Fin 1" "Fin 1"]
  by (simp add: vasicek_calibration_def holee_calibration_def epsilon_def Let_def
      plus_npfloat_def minus_npfloat_def times_npfloat_def divide_npfloat_def)

text \<open>
  C7, as the claim states it, fails at \<open>sigma = -1e-6\<close>, a negative value near zero: the
  denominator \<open>sigma + 1e-6\<close> is exactly zero there, and the residual of a transition
  whose numerator is positive is \<open>inf\<close>.
\<close>

theorem epsilon_denominator_counterexample:
  "Fin (- (1 / 10 ^ 6)) + epsilon = Fin 0 \<and>
   vasicek_calibration [Fin 0, Fin 0, Fin (- (1 / 10 ^ 6))] [Fin 0, Fin 1] (Fin 1) = Inr [PInf] \<and>
   holee_calibration [Fin 0, Fin (- (1 / 10 ^ 6))] [Fin 0, Fin 1] (Fin 1) = Inr [PInf]"
  by (simp add: vasicek_calibration_def holee_calibration_def epsilon_def Let_def
      plus_npfloat_def minus_npfloat_def times_npfloat_def divide_npfloat_def)

text \<open>
  C7, amended: the denominator \<open>sigma + 1e-6\<close> is zero for \<open>sigma = -1e-6\<close> and for no other
  \<open>sigma\<close> (so for no \<open>sigma\<close> that is zero or positive), and the residual functions raise
  for no \<open>sigma\<close> at all: numpy's division by zero gives \<open>inf\<close> or \<open>nan\<close>.
\<close>

theorem epsilon_denominator:
  "(s + epsilon = Fin 0 \<longleftrightarrow> s = Fin (- (1 / 10 ^ 6))) \<and>
   (\<exists>res. vasicek_calibration [pa, pb, s] r dt = Inr res) \<and>
   (\<exists>res. holee_calibration [pt, s] r dt = Inr res)"
  by (simp add: denominator_zero_iff vasicek_calibration_unfold holee_calibration_unfold)

section \<open>Determinism and the unused scheme\<close>

lemma vasicek_step_scheme: "vasicek_step (m\<lparr>scheme := s\<rparr>) = vasicek_step m"
  by (intro ext) (simp add: vasicek_step_def)

lemma holee_step_scheme: "holee_step (m\<lparr>hl_scheme := s\<rparr>) = holee_step m"
  by (intro ext) (simp add: holee_step_def)

lemma vasicek_simulate_scheme:
  "vasicek_simulate gen (m\<lparr>scheme := s\<rparr>) T dt n_paths g = vasicek_simulate gen m T dt n_paths g"
  unfolding vasicek_simulate_def vasicek_step_scheme
  by (simp cong: sum.case_cong prod.case_cong)

lemma holee_simulate_scheme:
  "holee_simulate gen (m\<lparr>hl_scheme := s\<rparr>) T dt n_paths g = holee_simulate gen m T dt n_paths g"
  unfolding holee_simulate_def holee_step_scheme
  by (simp cong: sum.case_cong prod.case_cong)


text \<open>
  C10: the constructors store the argument \<open>scheme\<close>, \<open>"euler"\<close> when it is omitted, and
  \<open>simulate\<close> never reads it: two instances built from the same coefficients and any two
  values of \<open>scheme\<close> give the same result on the same \<open>T\<close>, \<open>dt\<close>, \<open>n_paths\<close> and generator
  state.
\<close>

theorem scheme_has_no_influence:
  "scheme (VasicekModel_init pa pb ps pr None) = ''euler'' \<and>
   scheme (VasicekModel_init pa pb ps pr (Some s1)) = s1 \<and>
   hl_scheme (HoLeeModel_init pt ps pr None) = ''euler'' \<and>
   hl_scheme (HoLeeModel_init pt ps pr (Some s1)) = s1 \<and>
   vasicek_simulate gen (VasicekModel_init pa pb ps pr o1) T dt n_paths g =
     vasicek_simulate gen (VasicekModel_init pa pb ps pr o2) T dt n_paths g \<and>
   holee_simulate gen (HoLeeModel_init pt ps pr o1) T dt n_paths g =
     holee_simulate gen (HoLeeModel_init pt ps pr o2) T dt n_paths g"
proof -
  have V: "VasicekModel_init pa pb ps pr o1 =
      (VasicekModel_init pa pb ps pr o2)\<lparr>scheme := scheme (VasicekModel_init pa pb ps pr o1)\<rparr>"
    by (simp add: VasicekModel_init_def)
  have H: "HoLeeModel_init pt ps pr o1 =
      (HoLeeModel_init pt ps pr o2)\<lparr>hl_scheme := hl_scheme (HoLeeModel_init pt ps pr o1)\<rparr>"
    by (simp add: HoLeeModel_init_def)
  have "vasicek_simulate gen (VasicekModel_init pa pb ps pr o1) T dt n_paths g =
     vasicek_simulate gen (VasicekModel_init pa pb ps pr o2) T dt n_paths g"
    by (subst V) (rule vasicek_simulate_scheme)
  moreover have "holee_simulate gen (HoLeeModel_init pt ps pr o1) T dt n_paths g =
     holee_simulate gen (HoLeeModel_init pt ps pr o2) T dt n_paths g"
    by (subst H) (rule holee_simulate_scheme)
  moreover have "scheme (VasicekModel_init pa pb ps pr None) = ''euler''"
    "scheme (VasicekModel_init pa pb ps pr (Some s1)) = s1"
    "hl_scheme (HoLeeModel_init pt ps pr None) = ''euler''"
    "hl_scheme (HoLeeModel_init pt ps pr (Some s1)) = s1"
    by (simp_all add: VasicekModel_init_def HoLeeModel_init_def)
  ultimately show ?thesis by blast
qed

section \<open>The calibration calls\<close>






section \<open>A horizon or a step that is not positive\<close>














section \<open>Zero volatility\<close>










end
